theory Spec2Isabelle
  imports Complex_Main "HOL-Library.AList"
begin

section \<open>Strings\<close>

text \<open>
  Strings are lists of 8-bit characters. \<open>toLowerCase\<close> folds the ASCII letters
  \<open>A\<close>..\<open>Z\<close> and leaves every other character alone. The source compares lowered
  strings with ASCII literals only (\<open>'value'\<close>, \<open>'cell'\<close>, the header keywords).
\<close>

definition toLowerCase_char :: "char \<Rightarrow> char" where
  "toLowerCase_char c =
     (let n = (of_char c :: nat) in if 65 \<le> n \<and> n \<le> 90 then char_of (n + 32) else c)"

definition toLowerCase :: "string \<Rightarrow> string" where
  "toLowerCase s = map toLowerCase_char s"

section \<open>The scene graph\<close>

text \<open>
  A scene node as the plugin reads it: \<open>id\<close>, \<open>type\<close>, \<open>name\<close>, the position
  \<open>x\<close>, \<open>y\<close>, the id of \<open>parent\<close> (\<open>None\<close> when \<open>node.parent\<close> is null) and
  \<open>children\<close> (\<open>None\<close> when the node has no \<open>children\<close> property, the test
  \<open>'children' in node\<close> of the source). Positions are finite numbers; the source only
  looks at the sign of a difference of two of them, which is exact.
\<close>

datatype node_type = INSTANCE | TEXT | FRAME | GROUP | COMPONENT | RECTANGLE

datatype node =
  Node (nid: string) (ntype: node_type) (nname: string) (nx: real) (ny: real)
       (nparent: "string option") (nchildren: "node list option")

subsection \<open>findValueLayer\<close>

fun findValueLayer :: "node \<Rightarrow> node option"
  and findValueLayer_children :: "node list \<Rightarrow> node option" where
  "findValueLayer (Node i t n x y p cs) =
     (if toLowerCase n = ''value'' \<and> t = TEXT then Some (Node i t n x y p cs)
      else (case cs of
              Some kids \<Rightarrow> findValueLayer_children kids
            | None \<Rightarrow> None))"
| "findValueLayer_children [] = None"
| "findValueLayer_children (child # rest) =
     (case findValueLayer child of
        Some v \<Rightarrow> Some v
      | None \<Rightarrow> findValueLayer_children rest)"

subsection \<open>getAllCells\<close>

text \<open>The filter predicate the source writes three times.\<close>

definition cell_instance :: "node \<Rightarrow> bool" where
  "cell_instance child \<longleftrightarrow> ntype child = INSTANCE \<and> toLowerCase (nname child) = ''cell''"

text \<open>The callback of the inner \<open>parent.children.forEach\<close> (first level below a root).\<close>

definition getAllCells_child :: "node \<Rightarrow> node list" where
  "getAllCells_child child =
     (if ntype child = INSTANCE then
        (if toLowerCase (nname child) = ''cell'' then [child]
         else (case nchildren child of
                 Some grandchildren \<Rightarrow> filter cell_instance grandchildren
               | None \<Rightarrow> []))
      else (case nchildren child of
              Some grandchildren \<Rightarrow> filter cell_instance grandchildren
            | None \<Rightarrow> []))"

text \<open>The callback of \<open>selection.forEach\<close>: what one selected node adds to \<open>cells\<close>.\<close>

definition getAllCells_root :: "node \<Rightarrow> node list" where
  "getAllCells_root node =
     (if ntype node = INSTANCE then
        (if toLowerCase (nname node) = ''cell'' then [node]
         else (case nchildren node of
                 Some kids \<Rightarrow> filter cell_instance kids
               | None \<Rightarrow> []))
      else (case nchildren node of
              Some kids \<Rightarrow> concat (map getAllCells_child kids)
            | None \<Rightarrow> []))"

definition getAllCells :: "node list \<Rightarrow> node list" where
  "getAllCells selection = concat (map getAllCells_root selection)"

subsection \<open>organizeCellsIntoRows\<close>

text \<open>
  \<open>Array.prototype.sort\<close> with a comparator, as a stable insertion sort: \<open>a\<close> goes
  before the first \<open>b\<close> with \<open>cmp a b \<le> 0\<close>.
\<close>

fun insert_by :: "('a \<Rightarrow> 'a \<Rightarrow> real) \<Rightarrow> 'a \<Rightarrow> 'a list \<Rightarrow> 'a list" where
  "insert_by cmp a [] = [a]"
| "insert_by cmp a (b # bs) =
     (if cmp a b \<le> 0 then a # b # bs else b # insert_by cmp a bs)"

definition array_sort :: "('a \<Rightarrow> 'a \<Rightarrow> real) \<Rightarrow> 'a list \<Rightarrow> 'a list" where
  "array_sort cmp xs = foldr (insert_by cmp) xs []"

text \<open>
  \<open>rowMap\<close> is a \<open>Map\<close> from parent id to cells, kept in insertion order: an association
  list, with \<open>AList.update\<close> for \<open>set\<close> (a new key goes last) and \<open>map_of\<close> for
  \<open>get\<close>. One step of \<open>cells.forEach\<close>:
\<close>

definition rowMap_add :: "(string \<times> node list) list \<Rightarrow> node \<Rightarrow> (string \<times> node list) list" where
  "rowMap_add rowMap cell =
     (case nparent cell of
        None \<Rightarrow> rowMap
      | Some parentId \<Rightarrow>
          (let rowMap1 = (if map_of rowMap parentId = None
                          then AList.update parentId [] rowMap else rowMap)
           in case map_of rowMap1 parentId of
                Some rowCells \<Rightarrow> AList.update parentId (rowCells @ [cell]) rowMap1
              | None \<Rightarrow> rowMap1))"

definition compare_x :: "node \<Rightarrow> node \<Rightarrow> real" where
  "compare_x a b = nx a - nx b"

definition compare_rows :: "node list \<Rightarrow> node list \<Rightarrow> real" where
  "compare_rows rowA rowB =
     (if length rowA = 0 \<or> length rowB = 0 then 0 else ny (rowA ! 0) - ny (rowB ! 0))"

definition organizeCellsIntoRows :: "node list \<Rightarrow> node list list" where
  "organizeCellsIntoRows cells =
     (let rowMap = foldl rowMap_add [] cells;
          rowMap2 = map (\<lambda>(parentId, rowCells). (parentId, array_sort compare_x rowCells)) rowMap;
          rows = map snd rowMap2
      in array_sort compare_rows rows)"

section \<open>Datasets\<close>

text \<open>
  The values a record field holds are scalars. Numbers are integers of magnitude below
  \<open>10^21\<close>, which \<open>String\<close> prints as plain decimal digits. An object is the list of
  its own properties in the order \<open>Object.keys\<close> lists them, each key once.
  The \<open>data\<close> argument is typed \<open>any\<close>: an array of objects, a single object or a
  primitive. Arrays with elements that are not objects, and properties inherited from
  \<open>Object.prototype\<close>, are outside this model.
\<close>

datatype jsval = JUndefined | JNull | JBool bool | JNum int | JStr string

type_synonym js_object = "(string \<times> jsval) list"

datatype js_data = JArray "js_object list" | JObject js_object | JPrimitive jsval

text \<open>\<open>Array.isArray(data) && data.length !== 0\<close>.\<close>

fun nonempty_array :: "js_data \<Rightarrow> bool" where
  "nonempty_array (JArray (obj # objs)) = True"
| "nonempty_array data = False"

definition Object_keys :: "js_object \<Rightarrow> string list" where
  "Object_keys obj = map fst obj"

text \<open>\<open>obj[key]\<close>: the own property, or \<open>undefined\<close>.\<close>

definition js_get :: "js_object \<Rightarrow> string \<Rightarrow> jsval" where
  "js_get obj key = (case map_of obj key of Some v \<Rightarrow> v | None \<Rightarrow> JUndefined)"

definition digit_char :: "nat \<Rightarrow> char" where
  "digit_char d = ''0123456789'' ! d"

fun digits :: "nat \<Rightarrow> string" where
  "digits n = (if n < 10 then [digit_char n] else digits (n div 10) @ [digit_char (n mod 10)])"

declare digits.simps [simp del]

definition int_to_string :: "int \<Rightarrow> string" where
  "int_to_string n = (if n < 0 then ''-'' @ digits (nat (- n)) else digits (nat n))"

fun js_String :: "jsval \<Rightarrow> string" where
  "js_String JUndefined = ''undefined''"
| "js_String JNull = ''null''"
| "js_String (JBool b) = (if b then ''true'' else ''false'')"
| "js_String (JNum n) = int_to_string n"
| "js_String (JStr s) = s"

subsection \<open>convertObjectsTo2DArray\<close>

definition convertObjectsTo2DArray :: "js_data \<Rightarrow> jsval list list" where
  "convertObjectsTo2DArray data =
     (case data of
        JArray objs \<Rightarrow>
          (if length objs = 0 then []
           else
             (let keys = Object_keys (objs ! 0);
                  result = [map JStr keys]
              in foldl (\<lambda>result obj. result @ [map (\<lambda>key. js_get obj key) keys]) result objs))
      | JObject _ \<Rightarrow> []
      | JPrimitive _ \<Rightarrow> [])"

section \<open>populateTable\<close>

text \<open>
  The only thing the plugin mutates is the \<open>characters\<close> of text nodes: the document's
  text is a store from node id to string. Font loading does not touch it.
  The text written for one data value (the argument of \<open>String\<close> in the source):
\<close>

type_synonym text_store = "string \<Rightarrow> string"

definition cell_text :: "jsval \<Rightarrow> string" where
  "cell_text v = js_String (if v \<noteq> JNull \<and> v \<noteq> JUndefined then v else JStr [])"

text \<open>
  The inner loop runs while \<open>colIndex\<close> is below both lengths, the outer one while
  \<open>rowIndex\<close> is: both walk two lists in step. The state is the text store and
  \<open>updatedCount\<close>.
\<close>

fun populate_row :: "node list \<Rightarrow> jsval list \<Rightarrow> text_store \<times> nat \<Rightarrow> text_store \<times> nat" where
  "populate_row (cell # rowCells) (v # rowData) (chars, updatedCount) =
     populate_row rowCells rowData
       (case findValueLayer cell of
          Some valueLayer \<Rightarrow> (chars(nid valueLayer := cell_text v), updatedCount + 1)
        | None \<Rightarrow> (chars, updatedCount))"
| "populate_row [] rowData st = st"
| "populate_row rowCells [] st = st"

fun populate_rows ::
  "node list list \<Rightarrow> jsval list list \<Rightarrow> text_store \<times> nat \<Rightarrow> text_store \<times> nat" where
  "populate_rows (rowCells # rows) (rowData # dataRows) st =
     populate_rows rows dataRows (populate_row rowCells rowData st)"
| "populate_rows [] dataRows st = st"
| "populate_rows rows [] st = st"

datatype notification = SelectCells | NoCellsFound | Updated nat

definition populateTable :: "node list \<Rightarrow> js_data \<Rightarrow> text_store \<Rightarrow> notification \<times> text_store" where
  "populateTable selection data chars =
     (if length selection = 0 then (SelectCells, chars)
      else
        (let allCells = getAllCells selection in
         if length allCells = 0 then (NoCellsFound, chars)
         else
           (let rows = organizeCellsIntoRows allCells;
                dataRows = convertObjectsTo2DArray data;
                (chars', updatedCount) = populate_rows rows dataRows (chars, 0)
            in (Updated updatedCount, chars'))))"

section \<open>Specification-side notions\<close>

text \<open>
  The children of a node, and the nodes \<open>d\<close> levels below a root.
\<close>

definition children_of :: "node \<Rightarrow> node list" where
  "children_of n = (case nchildren n of Some kids \<Rightarrow> kids | None \<Rightarrow> [])"

fun level :: "nat \<Rightarrow> node \<Rightarrow> node list" where
  "level 0 r = [r]"
| "level (Suc d) r = concat (map children_of (level d r))"

text \<open>The pre-order walk of a subtree, root first, children left to right.\<close>

fun preorder :: "node \<Rightarrow> node list"
  and preorder_list :: "node list \<Rightarrow> node list" where
  "preorder (Node i t n x y p cs) =
     Node i t n x y p cs # (case cs of Some kids \<Rightarrow> preorder_list kids | None \<Rightarrow> [])"
| "preorder_list [] = []"
| "preorder_list (child # rest) = preorder child @ preorder_list rest"

definition value_text :: "node \<Rightarrow> bool" where
  "value_text n \<longleftrightarrow> toLowerCase (nname n) = ''value'' \<and> ntype n = TEXT"





text \<open>The invariant of \<open>rowMap\<close> while the cells are grouped.\<close>

definition rowMap_ok :: "(string \<times> node list) list \<Rightarrow> bool" where
  "rowMap_ok rowMap \<longleftrightarrow> distinct (map fst rowMap) \<and> (\<forall>(k, rowCells) \<in> set rowMap. rowCells \<noteq> [])"



section \<open>Example documents\<close>

definition empty_texts :: text_store where
  "empty_texts = (\<lambda>i. [])"

definition ex_value :: "string \<Rightarrow> string \<Rightarrow> node" where
  "ex_value i p = Node i TEXT ''Value'' 0 0 (Some p) None"

definition ex_cell :: "string \<Rightarrow> real \<Rightarrow> real \<Rightarrow> string \<Rightarrow> node" where
  "ex_cell i x y p = Node i INSTANCE ''Cell'' x y (Some p) (Some [ex_value (i @ ''v'') i])"

definition ex_cells :: "node list" where
  "ex_cells = [ex_cell ''c3'' 240 0 ''r1'', ex_cell ''c1'' 0 0 ''r1'', ex_cell ''c2'' 120 0 ''r1'']"

definition ex_row :: node where
  "ex_row = Node ''r1'' FRAME ''Row'' 0 0 (Some ''t'') (Some ex_cells)"

definition ex_deep :: node where
  "ex_deep = Node ''p1'' FRAME ''Page'' 0 0 None
     (Some [Node ''t'' FRAME ''Table'' 0 0 (Some ''p1'') (Some [ex_row])])"

definition ex_frame :: node where
  "ex_frame = Node ''f1'' FRAME ''cell'' 0 0 None (Some [ex_cell ''c1'' 0 0 ''f1''])"

definition ex_bare_cell :: node where
  "ex_bare_cell = Node ''c0'' INSTANCE ''cell'' 0 0 (Some ''r1'') (Some [])"

definition ex_rows :: "node list list" where
  "ex_rows = [[ex_cell ''c1'' 0 0 ''r1'', ex_cell ''c2'' 120 0 ''r1'', ex_cell ''c3'' 240 0 ''r1'']]"


definition ex_grid :: "node list list" where
  "ex_grid = [[ex_cell ''a1'' 0 0 ''r1'', ex_cell ''a2'' 120 0 ''r1''],
              [ex_cell ''b1'' 0 40 ''r2'', ex_cell ''b2'' 120 40 ''r2'']]"

definition ex_scattered :: "node list" where
  "ex_scattered = [ex_cell ''b2'' 120 40 ''r2'', ex_cell ''a2'' 120 0 ''r1'',
                   ex_cell ''b1'' 0 40 ''r2'', ex_cell ''a1'' 0 0 ''r1'']"

section \<open>String operations of the generators\<close>

text \<open>
  \<open>s.startsWith(p)\<close>, \<open>s.includes(sub)\<close> (as \<open>str_includes\<close>), \<open>s.trim()\<close> (ASCII white space) and
  \<open>s.slice(-n)\<close>.
\<close>

fun startsWith :: "string \<Rightarrow> string \<Rightarrow> bool" where
  "startsWith s [] = True"
| "startsWith [] (p # ps) = False"
| "startsWith (c # s) (p # ps) = (c = p \<and> startsWith s ps)"

fun str_includes :: "string \<Rightarrow> string \<Rightarrow> bool" where
  "str_includes [] sub = (sub = [])"
| "str_includes (c # s) sub = (startsWith (c # s) sub \<or> str_includes s sub)"

definition white_space :: "char \<Rightarrow> bool" where
  "white_space c \<longleftrightarrow> c \<in> set [CHR 0x20, CHR 0x09, CHR 0x0A, CHR 0x0B, CHR 0x0C, CHR 0x0D]"

definition trim :: "string \<Rightarrow> string" where
  "trim s = rev (dropWhile white_space (rev (dropWhile white_space s)))"

definition slice_last :: "nat \<Rightarrow> string \<Rightarrow> string" where
  "slice_last n s = drop (length s - n) s"

section \<open>Header classification\<close>

definition getDataTypeForHeader :: "string \<Rightarrow> string" where
  "getDataTypeForHeader header =
     (let headerLower = trim (toLowerCase header) in
      if str_includes headerLower ''first'' \<and> (str_includes headerLower ''name'' \<or> headerLower = ''first'')
      then ''firstName''
      else if str_includes headerLower ''last'' \<and> (str_includes headerLower ''name'' \<or> headerLower = ''last'')
      then ''lastName''
      else if headerLower = ''name'' \<or> headerLower = ''full name''
              \<or> (str_includes headerLower ''full'' \<and> str_includes headerLower ''name'')
      then ''fullName''
      else if str_includes headerLower ''email'' \<or> str_includes headerLower ''e-mail''
              \<or> str_includes headerLower ''mail''
      then ''email''
      else if str_includes headerLower ''phone'' \<or> str_includes headerLower ''mobile''
              \<or> str_includes headerLower ''cell''
              \<or> (str_includes headerLower ''number'' \<and> \<not> str_includes headerLower ''id'')
      then ''phone''
      else if str_includes headerLower ''website'' \<or> str_includes headerLower ''site''
              \<or> str_includes headerLower ''url'' \<or> str_includes headerLower ''web''
              \<or> str_includes headerLower ''link''
      then ''website''
      else if str_includes headerLower ''address'' \<or> str_includes headerLower ''street''
      then ''address''
      else if headerLower = ''city''
      then ''city''
      else if headerLower = ''state'' \<or> headerLower = ''province''
      then ''state''
      else if headerLower = ''country''
      then ''country''
      else if str_includes headerLower ''zip'' \<or> str_includes headerLower ''postal''
              \<or> str_includes headerLower ''post code''
      then ''zipCode''
      else if str_includes headerLower ''location'' \<or> str_includes headerLower ''region''
              \<or> str_includes headerLower ''area''
      then ''location''
      else if str_includes headerLower ''department'' \<or> str_includes headerLower ''dept''
      then ''department''
      else if str_includes headerLower ''role'' \<or> str_includes headerLower ''position''
              \<or> str_includes headerLower ''title'' \<or> str_includes headerLower ''job''
      then ''role''
      else if str_includes headerLower ''team'' \<or> str_includes headerLower ''group''
      then ''team''
      else if str_includes headerLower ''project'' \<or> str_includes headerLower ''initiative''
      then ''project''
      else if str_includes headerLower ''company'' \<or> str_includes headerLower ''organization''
              \<or> str_includes headerLower ''employer'' \<or> str_includes headerLower ''business''
      then ''company''
      else if str_includes headerLower ''skill'' \<or> str_includes headerLower ''expertise''
              \<or> str_includes headerLower ''specialty'' \<or> str_includes headerLower ''proficiency''
      then ''skill''
      else if str_includes headerLower ''language'' \<or> str_includes headerLower ''lang''
      then ''language''
      else if headerLower = ''status''
              \<or> (str_includes headerLower ''state'' \<and> \<not> str_includes headerLower ''country'')
      then ''status''
      else if str_includes headerLower ''date'' \<or> str_includes headerLower ''time''
              \<or> str_includes headerLower ''when''
      then ''date''
      else if str_includes headerLower ''price'' \<or> str_includes headerLower ''cost''
              \<or> str_includes headerLower ''$'' \<or> str_includes headerLower ''fee''
              \<or> (str_includes headerLower ''amount'' \<and> \<not> str_includes headerLower ''quantity'')
      then ''price''
      else if str_includes headerLower ''quantity'' \<or> str_includes headerLower ''qty''
              \<or> str_includes headerLower ''count'' \<or> str_includes headerLower ''number of''
      then ''quantity''
      else if str_includes headerLower ''rating'' \<or> str_includes headerLower ''score''
              \<or> str_includes headerLower ''rank'' \<or> str_includes headerLower ''review''
      then ''rating''
      else if headerLower = ''id'' \<or> str_includes headerLower ''identifier''
              \<or> str_includes headerLower ''uuid'' \<or> str_includes headerLower ''code''
              \<or> (str_includes headerLower ''number'' \<and> str_includes headerLower ''id'')
      then ''id''
      else if str_includes headerLower ''access'' \<or> str_includes headerLower ''permission''
              \<or> str_includes headerLower ''privilege''
      then ''accessLevel''
      else if str_includes headerLower ''description'' \<or> str_includes headerLower ''desc''
              \<or> str_includes headerLower ''about'' \<or> str_includes headerLower ''details''
      then ''description''
      else if str_includes headerLower ''comment'' \<or> str_includes headerLower ''note''
              \<or> str_includes headerLower ''feedback''
      then ''comment''
      else if str_includes headerLower ''duration'' \<or> str_includes headerLower ''length''
              \<or> str_includes headerLower ''time span''
      then ''duration''
      else if str_includes headerLower ''start'' \<and> str_includes headerLower ''date''
      then ''startDate''
      else if str_includes headerLower ''end'' \<and> str_includes headerLower ''date''
      then ''endDate''
      else if str_includes headerLower ''deadline''
      then ''deadline''
      else if str_includes headerLower ''budget''
      then ''budget''
      else if str_includes headerLower ''revenue'' \<or> str_includes headerLower ''sales''
      then ''revenue''
      else if str_includes headerLower ''profit'' \<or> str_includes headerLower ''margin''
      then ''profit''
      else ''generic:'' @ trim header)"

section \<open>The random source and the host\<close>

text \<open>
  \<open>Math.random()\<close> reads the next number of a stream; a valid stream holds numbers in
  \<open>[0, 1)\<close>. \<open>random_floor n\<close> is \<open>Math.floor(Math.random() * n)\<close>.
\<close>

type_synonym rng = "nat \<Rightarrow> real"

definition Math_random :: "rng \<Rightarrow> real \<times> rng" where
  "Math_random r = (r 0, \<lambda>n. r (Suc n))"


definition random_floor :: "nat \<Rightarrow> rng \<Rightarrow> nat \<times> rng" where
  "random_floor n r = (let (u, r') = Math_random r in (nat \<lfloor>u * real n\<rfloor>, r'))"

text \<open>
  What the generators ask of the JavaScript host: the current year, the ISO date a
  number of days from today, and \<open>toLocaleString\<close> of a number.
\<close>

record host =
  currentYear :: int
  isoDateInDays :: "nat \<Rightarrow> string"
  toLocaleString :: "nat \<Rightarrow> string"

text \<open>\<open>x.toFixed(2)\<close> for a non-negative \<open>x\<close>.\<close>

definition toFixed2 :: "real \<Rightarrow> string" where
  "toFixed2 x =
     (let n = nat \<lfloor>x * 100 + 1 / 2\<rfloor>
      in digits (n div 100) @ ''.'' @ [digit_char (n mod 100 div 10), digit_char (n mod 10)])"

text \<open>\<open>xs[i % xs.length]\<close>.\<close>

definition at_mod :: "'a list \<Rightarrow> nat \<Rightarrow> 'a" where
  "at_mod xs i = xs ! (i mod length xs)"

subsection \<open>shuffleArray\<close>

text \<open>The loop runs \<open>i\<close> from \<open>length - 1\<close> down to 1 and swaps places \<open>i\<close> and \<open>j\<close>.\<close>

fun shuffle_loop :: "nat \<Rightarrow> 'a list \<Rightarrow> rng \<Rightarrow> 'a list \<times> rng" where
  "shuffle_loop 0 shuffled r = (shuffled, r)"
| "shuffle_loop (Suc k) shuffled r =
     (let (j, r') = random_floor (Suc k + 1) r
      in shuffle_loop k (shuffled[Suc k := shuffled ! j, j := shuffled ! Suc k]) r')"

definition shuffleArray :: "'a list \<Rightarrow> rng \<Rightarrow> 'a list \<times> rng" where
  "shuffleArray array r = shuffle_loop (length array - 1) array r"

section \<open>The candidate pools\<close>

definition firstNames :: "string list" where
  "firstNames =
     [''Mark'', ''Sarah'', ''James'', ''Priya'', ''Michael'',
      ''Emma'', ''David'', ''Olivia'', ''Thomas'', ''Aisha'',
      ''Robert'', ''Sofia'', ''Daniel'', ''Mei'', ''Carlos'',
      ''Fatima'', ''John'', ''Zara'', ''Alexander'', ''Leila'',
      ''William'', ''Sophia'', ''Luis'', ''Elena'', ''Mohammed'',
      ''Chloe'', ''Hiroshi'', ''Isabella'', ''Raj'', ''Ingrid'']"

text \<open>Letters outside ASCII are written as their UTF-8 bytes.\<close>

definition lastNames :: "string list" where
  "lastNames =
     [''Darnalds'', ''Johnson'', ''Chen'', ''Patel'', ''Rodriguez'',
      ''Wilson'', ''Kim'', ''Martinez'', ''Schmidt'', ''Ahmed'',
      ''Brown'', ''Garcia'', ''Nguyen'', ''Singh'', ''M'' @ [CHR 0xC3, CHR 0xBC] @ ''ller'',
      ''Taylor'', ''Sato'', ''Lopez'', ''Ivanov'', ''Silva'',
      ''Anderson'', ''Kowalski'', ''Rossi'', ''Jensen'', ''Ali'',
      ''Wang'', ''Dubois'', ''Hernandez'', ''O'Connor'', ''Yamamoto'']"

definition departments :: "string list" where
  "departments =
     [''Design'', ''Engineering'', ''Marketing'', ''Product'', ''Sales'',
      ''Finance'', ''Legal'', ''Human Resources'', ''Customer Support'', ''Operations'',
      ''Research'', ''Development'', ''Quality Assurance'', ''Business Development'', ''IT'']"

definition teams :: "string list" where
  "teams =
     [''Alpha'', ''Beta'', ''Gamma'', ''Delta'', ''Epsilon'',
      ''Omega'', ''Phoenix'', ''Titan'', ''Nexus'', ''Quantum'',
      ''Horizon'', ''Apex'', ''Zenith'', ''Pulse'', ''Fusion'']"

definition accessLevels :: "string list" where
  "accessLevels = [''Admin'', ''Editor'', ''Viewer'', ''Owner'', ''Guest'']"

subsection \<open>Pools of populateTableWithDummyData\<close>








subsection \<open>Pools of generateDataFromHeaders\<close>

definition locations :: "string list" where
  "locations =
     [''London'', ''New York'', ''Singapore'', ''Berlin'', ''Madrid'',
      ''Paris'', ''Tokyo'', ''Sydney'', ''Toronto'', ''Dubai'',
      ''Amsterdam'', ''Stockholm'', ''Hong Kong'', ''Mumbai'', ''S'' @ [CHR 0xC3, CHR 0xA3] @ ''o Paulo'']"

definition roles :: "string list" where
  "roles =
     [''Manager'', ''Director'', ''Associate'', ''Specialist'', ''Lead'',
      ''Coordinator'', ''Analyst'', ''Designer'', ''Developer'', ''Consultant'',
      ''Administrator'', ''Strategist'', ''Engineer'', ''Architect'', ''Executive'']"

definition projects :: "string list" where
  "projects =
     [''Dashboard Redesign'', ''Mobile App'', ''API Integration'', ''Data Migration'', ''Cloud Infrastructure'',
      ''Security Audit'', ''UI Component Library'', ''Analytics Platform'', ''Customer Portal'', ''Automation Framework'']"

definition skills :: "string list" where
  "skills =
     [''JavaScript'', ''Python'', ''Design Systems'', ''Product Strategy'', ''Data Analysis'',
      ''Project Management'', ''UX Research'', ''Cloud Architecture'', ''DevOps'', ''Machine Learning'']"

definition languages :: "string list" where
  "languages =
     [''English'', ''Spanish'', ''Mandarin'', ''French'', ''German'',
      ''Japanese'', ''Russian'', ''Arabic'', ''Portuguese'', ''Hindi'']"

definition statuses :: "string list" where
  "statuses = [''Active'', ''Inactive'', ''Pending'', ''Suspended'', ''Archived'',
               ''Completed'', ''In Progress'', ''On Hold'']"

definition companies :: "string list" where
  "companies =
     [''Acme Inc.'', ''Globex Corp'', ''Initech'', ''Umbrella Corp'', ''Stark Industries'',
      ''Wayne Enterprises'', ''Cyberdyne Systems'', ''Soylent Corp'', ''Massive Dynamic'', ''Hooli'']"

definition addresses :: "string list" where
  "addresses =
     [''123 Main St'', ''456 Park Ave'', ''789 Broadway'', ''321 Oak Lane'', ''654 Pine Road'',
      ''987 Maple Drive'', ''741 Cedar Blvd'', ''852 Elm Street'', ''963 Willow Way'', ''159 Birch Court'']"

definition cities :: "string list" where
  "cities =
     [''New York'', ''London'', ''Tokyo'', ''Paris'', ''Berlin'',
      ''Sydney'', ''Toronto'', ''Singapore'', ''Dubai'', ''Mumbai'']"

definition phoneNumbers :: "string list" where
  "phoneNumbers =
     [''+1 (555) 123-4567'', ''+44 20 7946 0958'', ''+65 8765 4321'', ''+49 30 1234 5678'', ''+34 91 123 4567'',
      ''+33 1 23 45 67 89'', ''+81 3 1234 5678'', ''+61 2 1234 5678'', ''+1 (416) 123-4567'', ''+971 4 123 4567'']"

definition dates :: "string list" where
  "dates =
     [''2023-01-15'', ''2023-02-28'', ''2023-03-10'', ''2023-04-22'', ''2023-05-05'',
      ''2023-06-18'', ''2023-07-30'', ''2023-08-12'', ''2023-09-25'', ''2023-10-08'',
      ''2023-11-20'', ''2023-12-03'', ''2024-01-16'', ''2024-02-29'', ''2024-03-11'']"

definition prices :: "string list" where
  "prices =
     [''$19.99'', ''$24.50'', ''$99.00'', ''$149.99'', ''$7.99'',
      ''$35.75'', ''$199.99'', ''$49.00'', ''$299.99'', ''$12.50'',
      ''$59.99'', ''$85.25'', ''$129.00'', ''$14.99'', ''$249.99'']"

definition quantities :: "string list" where
  "quantities = [''1'', ''2'', ''5'', ''10'', ''25'', ''50'', ''100'', ''250'', ''500'', ''1000'']"

definition black_star :: string where
  "black_star = [CHR 0xE2, CHR 0x98, CHR 0x85]"

definition white_star :: string where
  "white_star = [CHR 0xE2, CHR 0x98, CHR 0x86]"

definition ratings :: "string list" where
  "ratings = map (\<lambda>n. concat (replicate (5 - n) black_star) @ concat (replicate n white_star)) [0..<5]"

definition ids :: "string list" where
  "ids = map (\<lambda>i. ''ID-'' @ slice_last 4 (''0000'' @ digits i)) [1..<101]"

definition state_names :: "string list" where
  "state_names = [''California'', ''New York'', ''Texas'', ''Florida'', ''Illinois'',
                  ''Pennsylvania'', ''Ohio'', ''Georgia'', ''Michigan'', ''North Carolina'']"

definition country_names :: "string list" where
  "country_names = [''United States'', ''United Kingdom'', ''Canada'', ''Australia'', ''Germany'',
                    ''France'', ''Japan'', ''India'', ''Brazil'', ''China'']"

definition descriptions :: "string list" where
  "descriptions =
     [''A comprehensive solution for enterprise needs.'',
      ''Designed with user experience in mind.'',
      ''Optimized for performance and scalability.'',
      ''Innovative approach to solving complex problems.'',
      ''Industry-leading features and capabilities.'',
      ''Built on cutting-edge technology.'',
      ''Tailored for maximum efficiency.'',
      ''Seamless integration with existing systems.'',
      ''Revolutionary design that sets new standards.'',
      ''Engineered for reliability and durability.'']"

definition comments :: "string list" where
  "comments =
     [''Looks great, approved!'',
      ''Need some minor adjustments.'',
      ''Excellent work on this.'',
      ''Let's discuss this further.'',
      ''I have some concerns about this.'',
      ''Very impressive results.'',
      ''This exceeds expectations.'',
      ''Please review and get back to me.'',
      ''I'd like to see alternative options.'',
      ''This is exactly what we needed.'']"

section \<open>generateDataFromHeaders\<close>

text \<open>The nineteen shuffled pools, in the order the source shuffles them.\<close>

record pools =
  shuffledFirstNames :: "string list"
  shuffledLastNames :: "string list"
  shuffledDepartments :: "string list"
  shuffledLocations :: "string list"
  shuffledRoles :: "string list"
  shuffledTeams :: "string list"
  shuffledProjects :: "string list"
  shuffledSkills :: "string list"
  shuffledLanguages :: "string list"
  shuffledStatuses :: "string list"
  shuffledCompanies :: "string list"
  shuffledAddresses :: "string list"
  shuffledCities :: "string list"
  shuffledPhoneNumbers :: "string list"
  shuffledDates :: "string list"
  shuffledPrices :: "string list"
  shuffledQuantities :: "string list"
  shuffledRatings :: "string list"
  shuffledIds :: "string list"

definition shuffle_pools :: "rng \<Rightarrow> pools \<times> rng" where
  "shuffle_pools r0 =
     (let (fn, r1) = shuffleArray firstNames r0;
          (ln, r2) = shuffleArray lastNames r1;
          (de, r3) = shuffleArray departments r2;
          (lo, r4) = shuffleArray locations r3;
          (ro, r5) = shuffleArray roles r4;
          (te, r6) = shuffleArray teams r5;
          (pr, r7) = shuffleArray projects r6;
          (sk, r8) = shuffleArray skills r7;
          (la, r9) = shuffleArray languages r8;
          (st, r10) = shuffleArray statuses r9;
          (co, r11) = shuffleArray companies r10;
          (ad, r12) = shuffleArray addresses r11;
          (ci, r13) = shuffleArray cities r12;
          (ph, r14) = shuffleArray phoneNumbers r13;
          (da, r15) = shuffleArray dates r14;
          (pc, r16) = shuffleArray prices r15;
          (qu, r17) = shuffleArray quantities r16;
          (ra, r18) = shuffleArray ratings r17;
          (ii, r19) = shuffleArray ids r18
      in (\<lparr>shuffledFirstNames = fn, shuffledLastNames = ln, shuffledDepartments = de,
           shuffledLocations = lo, shuffledRoles = ro, shuffledTeams = te,
           shuffledProjects = pr, shuffledSkills = sk, shuffledLanguages = la,
           shuffledStatuses = st, shuffledCompanies = co, shuffledAddresses = ad,
           shuffledCities = ci, shuffledPhoneNumbers = ph, shuffledDates = da,
           shuffledPrices = pc, shuffledQuantities = qu, shuffledRatings = ra,
           shuffledIds = ii\<rparr>, r19))"

text \<open>\<open>s.replace(/[^a-z0-9]/g, '')\<close> keeps the characters \<open>a\<close>..\<open>z\<close> and \<open>0\<close>..\<open>9\<close>.\<close>

definition lower_alnum :: "char \<Rightarrow> bool" where
  "lower_alnum c \<longleftrightarrow>
     (let n = (of_char c :: nat) in (97 \<le> n \<and> n \<le> 122) \<or> (48 \<le> n \<and> n \<le> 57))"

subsection \<open>generateDataForType\<close>

definition generateDataForType :: "host \<Rightarrow> pools \<Rightarrow> string \<Rightarrow> nat \<Rightarrow> rng \<Rightarrow> string \<times> rng" where
  "generateDataForType h p type rowIndex r =
     (if startsWith type ''generic:'' then
        (let headerName = drop 8 type in
         if str_includes (toLowerCase headerName) ''percent'' \<or> str_includes (toLowerCase headerName) ''%''
         then (let (n, r') = random_floor 100 r in (digits n @ ''%'', r'))
         else if str_includes (toLowerCase headerName) ''year''
         then (let (n, r') = random_floor 5 r in (int_to_string (currentYear h - int n), r'))
         else if str_includes (toLowerCase headerName) ''price''
                 \<or> str_includes (toLowerCase headerName) ''cost''
                 \<or> str_includes (toLowerCase headerName) ''payment''
                 \<or> str_includes (toLowerCase headerName) ''salary''
         then (let (u, r') = Math_random r in (''$'' @ toFixed2 (u * 1000), r'))
         else (headerName @ '' '' @ digits (rowIndex + 1), r))
      else if type = ''fullName'' then
        (at_mod (shuffledFirstNames p) rowIndex @ '' '' @ at_mod (shuffledLastNames p) rowIndex, r)
      else if type = ''firstName'' then (at_mod (shuffledFirstNames p) rowIndex, r)
      else if type = ''lastName'' then (at_mod (shuffledLastNames p) rowIndex, r)
      else if type = ''email'' then
        (let firstName = at_mod (shuffledFirstNames p) rowIndex;
             lastName = at_mod (shuffledLastNames p) rowIndex
         in (toLowerCase firstName @ ''.'' @ toLowerCase lastName @ ''@company.com'', r))
      else if type = ''phone'' then (at_mod (shuffledPhoneNumbers p) rowIndex, r)
      else if type = ''website'' then
        (let company = filter lower_alnum (toLowerCase (at_mod (shuffledCompanies p) rowIndex))
         in (''https://www.'' @ company @ ''.com'', r))
      else if type = ''department'' then (at_mod (shuffledDepartments p) rowIndex, r)
      else if type = ''location'' then (at_mod (shuffledLocations p) rowIndex, r)
      else if type = ''city'' then (at_mod (shuffledCities p) rowIndex, r)
      else if type = ''state'' then (state_names ! (rowIndex mod 10), r)
      else if type = ''country'' then (country_names ! (rowIndex mod 10), r)
      else if type = ''zipCode'' then
        (let (n, r') = random_floor 90000 r in (digits (10000 + n), r'))
      else if type = ''role'' then (at_mod (shuffledRoles p) rowIndex, r)
      else if type = ''team'' then (at_mod (shuffledTeams p) rowIndex, r)
      else if type = ''project'' then (at_mod (shuffledProjects p) rowIndex, r)
      else if type = ''skill'' then (at_mod (shuffledSkills p) rowIndex, r)
      else if type = ''language'' then (at_mod (shuffledLanguages p) rowIndex, r)
      else if type = ''status'' then (at_mod (shuffledStatuses p) rowIndex, r)
      else if type = ''company'' then (at_mod (shuffledCompanies p) rowIndex, r)
      else if type = ''address'' then
        (at_mod (shuffledAddresses p) rowIndex @ '', '' @ at_mod (shuffledCities p) rowIndex, r)
      else if type = ''date'' then (at_mod (shuffledDates p) rowIndex, r)
      else if type = ''startDate'' then (at_mod (shuffledDates p) (rowIndex + 2), r)
      else if type = ''endDate'' then (at_mod (shuffledDates p) (rowIndex + 5), r)
      else if type = ''deadline'' then (isoDateInDays h (10 + rowIndex mod 30), r)
      else if type = ''price'' then (at_mod (shuffledPrices p) rowIndex, r)
      else if type = ''budget'' then
        (let (n, r') = random_floor 90000 r in (''$'' @ toLocaleString h (10000 + n), r'))
      else if type = ''revenue'' then
        (let (n, r') = random_floor 900000 r in (''$'' @ toLocaleString h (100000 + n), r'))
      else if type = ''profit'' then
        (let (n, r') = random_floor 50000 r in (''$'' @ toLocaleString h (5000 + n), r'))
      else if type = ''quantity'' then (at_mod (shuffledQuantities p) rowIndex, r)
      else if type = ''rating'' then (at_mod (shuffledRatings p) rowIndex, r)
      else if type = ''id'' then (at_mod (shuffledIds p) rowIndex, r)
      else if type = ''accessLevel'' then (accessLevels ! (rowIndex mod 5), r)
      else if type = ''description'' then (descriptions ! (rowIndex mod 10), r)
      else if type = ''comment'' then (comments ! (rowIndex mod 10), r)
      else if type = ''duration'' then
        ([digits (1 + rowIndex mod 12) @ '' hours'',
          digits (1 + rowIndex mod 30) @ '' days'',
          digits (1 + rowIndex mod 12) @ '' months''] ! (rowIndex mod 3), r)
      else (''Item '' @ digits (rowIndex + 1), r))"

text \<open>The inner loop over the columns and the outer loop over the row indices.\<close>

fun generate_row :: "host \<Rightarrow> pools \<Rightarrow> string list \<Rightarrow> nat \<Rightarrow> rng \<Rightarrow> string list \<times> rng" where
  "generate_row h p [] rowIndex r = ([], r)"
| "generate_row h p (dataType # headerTypes) rowIndex r =
     (let (v, r1) = generateDataForType h p dataType rowIndex r;
          (row, r2) = generate_row h p headerTypes rowIndex r1
      in (v # row, r2))"

fun generate_rows ::
  "host \<Rightarrow> pools \<Rightarrow> string list \<Rightarrow> nat \<Rightarrow> nat \<Rightarrow> rng \<Rightarrow> string list list \<times> rng" where
  "generate_rows h p headerTypes 0 rowIndex r = ([], r)"
| "generate_rows h p headerTypes (Suc n) rowIndex r =
     (let (row, r1) = generate_row h p headerTypes rowIndex r;
          (rows, r2) = generate_rows h p headerTypes n (Suc rowIndex) r1
      in (row # rows, r2))"

definition generateDataFromHeaders :: "host \<Rightarrow> string list \<Rightarrow> int \<Rightarrow> rng \<Rightarrow> string list list \<times> rng" where
  "generateDataFromHeaders h headers rowCount r =
     (let (p, r') = shuffle_pools r;
          headerTypes = map getDataTypeForHeader headers
      in generate_rows h p headerTypes (nat rowCount) 0 r')"

section \<open>The dummy data of populateTableWithDummyData\<close>













definition zero_rng :: rng where
  "zero_rng = (\<lambda>n. 0)"

definition ex_host :: host where
  "ex_host = \<lparr>currentYear = 2025, isoDateInDays = (\<lambda>d. []), toLocaleString = digits\<rparr>"

section \<open>Properties of the selector\<close>

lemma cell_instance_child:
  "c \<in> set (getAllCells_child child) \<Longrightarrow> cell_instance c"
  by (auto simp: getAllCells_child_def cell_instance_def split: if_splits option.splits)

lemma cell_instance_root:
  "c \<in> set (getAllCells_root node) \<Longrightarrow> cell_instance c"
  by (auto simp: getAllCells_root_def cell_instance_def
      split: if_splits option.splits dest: cell_instance_child)


lemma lower_cell [simp]: "toLowerCase ''cell'' = ''cell''" "toLowerCase ''Cell'' = ''cell''"
  by code_simp+

lemma lower_value [simp]: "toLowerCase ''value'' = ''value''" "toLowerCase ''Value'' = ''value''"
  by code_simp+

lemma lower_length: "length (toLowerCase s) = length s"
  by (simp add: toLowerCase_def)

lemma getAllCells_ex_row:
  "getAllCells [ex_row] = [ex_cell ''c3'' 240 0 ''r1'', ex_cell ''c1'' 0 0 ''r1'', ex_cell ''c2'' 120 0 ''r1'']"
  by (simp add: getAllCells_def getAllCells_root_def getAllCells_child_def ex_row_def ex_cells_def ex_cell_def
      cell_instance_def)

lemma getAllCells_ex_frame: "getAllCells [ex_frame] = [ex_cell ''c1'' 0 0 ''f1'']"
  by (simp add: getAllCells_def getAllCells_root_def getAllCells_child_def ex_frame_def ex_cell_def
      cell_instance_def)

text \<open>
  C10: every node the selector returns is an INSTANCE whose lowered name is \<open>cell\<close>; a
  node of another type (a frame named "cell", say) is never among the cells, selected
  directly or not.
\<close>

theorem getAllCells_instances_named_cell:
  "(\<forall>c \<in> set (getAllCells selection). ntype c = INSTANCE \<and> toLowerCase (nname c) = ''cell'')
   \<and> (ntype r \<noteq> INSTANCE \<longrightarrow> r \<notin> set (getAllCells selection))"
proof -
  have "\<forall>c \<in> set (getAllCells selection). cell_instance c"
    by (auto simp: getAllCells_def dest: cell_instance_root)
  then show ?thesis
    by (auto simp: cell_instance_def)
qed

theorem getAllCells_instances_named_cell_witness:
  "getAllCells [ex_frame] = [ex_cell ''c1'' 0 0 ''f1'']
   \<and> ntype (ex_cell ''c1'' 0 0 ''f1'') = INSTANCE
   \<and> toLowerCase (nname (ex_cell ''c1'' 0 0 ''f1'')) = ''cell''
   \<and> toLowerCase (nname ex_frame) = ''cell''
   \<and> ntype ex_frame \<noteq> INSTANCE
   \<and> ex_frame \<notin> set (getAllCells [ex_frame])"
  using getAllCells_instances_named_cell [of "[ex_frame]" ex_frame]
  by (simp add: getAllCells_ex_frame) (simp add: ex_frame_def ex_cell_def)

lemma level_child:
  "c \<in> set (getAllCells_child child) \<Longrightarrow> c = child \<or> c \<in> set (children_of child)"
  by (auto simp: getAllCells_child_def children_of_def split: if_splits option.splits)

lemma level_root:
  "c \<in> set (getAllCells_root r) \<Longrightarrow>
     c = r \<or> c \<in> set (children_of r) \<or> (\<exists>m \<in> set (children_of r). c \<in> set (children_of m))"
  by (auto simp: getAllCells_root_def children_of_def split: if_splits option.splits
      dest!: level_child)

text \<open>
  C6: a collected cell is a selected root, a child of one or a grandchild of one: it
  stands at level 0, 1 or 2 below the root it was collected from, never deeper.
\<close>

theorem getAllCells_depth_bounded:
  "\<forall>c \<in> set (getAllCells selection). \<exists>r \<in> set selection.
      c \<in> set (getAllCells_root r) \<and> c \<in> set (level 0 r) \<union> set (level 1 r) \<union> set (level 2 r)"
proof
  fix c assume "c \<in> set (getAllCells selection)"
  then obtain r where r: "r \<in> set selection" "c \<in> set (getAllCells_root r)"
    by (auto simp: getAllCells_def)
  from level_root [OF r(2)]
  have "c \<in> set (level 0 r) \<union> set (level 1 r) \<union> set (level 2 r)"
    by (auto simp: numeral_2_eq_2)
  with r show "\<exists>r \<in> set selection.
      c \<in> set (getAllCells_root r) \<and> c \<in> set (level 0 r) \<union> set (level 1 r) \<union> set (level 2 r)"
    by blast
qed

theorem getAllCells_depth_bounded_witness:
  "getAllCells [ex_row] =
     [ex_cell ''c3'' 240 0 ''r1'', ex_cell ''c1'' 0 0 ''r1'', ex_cell ''c2'' 120 0 ''r1'']
   \<and> level 1 ex_row =
     [ex_cell ''c3'' 240 0 ''r1'', ex_cell ''c1'' 0 0 ''r1'', ex_cell ''c2'' 120 0 ''r1'']
   \<and> level 3 ex_deep = level 1 ex_row
   \<and> getAllCells [ex_deep] = []"
proof -
  have deep: "level 3 ex_deep = level 1 ex_row" "getAllCells [ex_deep] = []"
    by (simp_all add: numeral_3_eq_3 ex_deep_def children_of_def getAllCells_def
        getAllCells_root_def getAllCells_child_def cell_instance_def ex_row_def)
  show ?thesis
    using getAllCells_depth_bounded [of "[ex_row]"] deep
    by (simp add: getAllCells_ex_row) (simp add: ex_row_def ex_cells_def children_of_def)
qed

section \<open>Properties of the value-layer search\<close>

lemma find_append_first:
  "List.find P (xs @ ys) = (case List.find P xs of Some x \<Rightarrow> Some x | None \<Rightarrow> List.find P ys)"
  by (induction xs) auto

lemma findValueLayer_preorder:
  "findValueLayer n = List.find value_text (preorder n)"
  "findValueLayer_children ns = List.find value_text (preorder_list ns)"
proof (induction n and ns rule: findValueLayer_findValueLayer_children.induct)
  case (1 i t n x y p cs)
  then show ?case
    by (cases cs) (auto simp: value_text_def)
next
  case 2
  show ?case by simp
next
  case (3 child rest)
  then show ?case
    by (auto simp: find_append_first split: option.splits)
qed

text \<open>
  C5: the resolver returns the first node of the pre-order walk (the root first) that
  is a text node whose lowered name is \<open>value\<close>, and nothing when the walk has none;
  a cell without one leaves the store and the counter as they were, and the loop goes
  on with the next cell.
\<close>

theorem findValueLayer_first_in_preorder:
  "findValueLayer node = List.find value_text (preorder node)
   \<and> (findValueLayer node = None \<longleftrightarrow> (\<forall>m \<in> set (preorder node). \<not> value_text m))
   \<and> (findValueLayer cell = None \<longrightarrow>
        populate_row (cell # rowCells) (v # rowData) (chars, updatedCount) =
        populate_row rowCells rowData (chars, updatedCount))"
proof -
  have "findValueLayer node = None \<longleftrightarrow> (\<forall>m \<in> set (preorder node). \<not> value_text m)"
    by (auto simp: findValueLayer_preorder(1) find_None_iff)
  then show ?thesis
    by (simp add: findValueLayer_preorder(1) [of node])
qed

lemma findValueLayer_ex_cell: "findValueLayer (ex_cell i x y p) = Some (ex_value (i @ ''v'') i)"
  by (simp add: ex_cell_def ex_value_def)

lemma findValueLayer_ex_bare_cell: "findValueLayer ex_bare_cell = None"
  by (simp add: ex_bare_cell_def)

theorem findValueLayer_first_in_preorder_witness:
  "findValueLayer ex_bare_cell = None
   \<and> preorder ex_bare_cell = [ex_bare_cell]
   \<and> \<not> value_text ex_bare_cell
   \<and> populate_row [ex_bare_cell, ex_cell ''c1'' 0 0 ''r1''] [JStr ''a'', JStr ''b''] (empty_texts, 0) =
       (empty_texts(''c1v'' := ''b''), 1)"
  using findValueLayer_first_in_preorder [of ex_bare_cell ex_bare_cell
      "[ex_cell ''c1'' 0 0 ''r1'']" "JStr ''a''" "[JStr ''b'']" empty_texts 0]
  by (simp add: findValueLayer_ex_bare_cell findValueLayer_ex_cell cell_text_def)
    (simp add: ex_bare_cell_def ex_value_def value_text_def)

section \<open>Properties of the conversion and of the population loops\<close>



lemma convert_not_nonempty: "\<not> nonempty_array data \<Longrightarrow> convertObjectsTo2DArray data = []"
  by (cases data rule: nonempty_array.cases) (simp_all add: convertObjectsTo2DArray_def)











lemma organize_ex_cells: "organizeCellsIntoRows ex_cells = ex_rows"
  by (simp add: organizeCellsIntoRows_def rowMap_add_def array_sort_def
      compare_x_def compare_rows_def ex_cell_def ex_cells_def ex_rows_def)

lemma digits_small: "n < 10 \<Longrightarrow> digits n = [digit_char n]"
  by (simp add: digits.simps)



text \<open>
  C8: data that is not an array, or is an empty array, converts to the empty list; the
  loops then write nothing and count nothing, and \<open>populateTable\<close> leaves the text as
  it was and, when it reaches the loops, reports zero updates.
\<close>

theorem malformed_dataset_zero_updates:
  assumes "\<not> nonempty_array data"
  shows "convertObjectsTo2DArray data = []
    \<and> populate_rows rows (convertObjectsTo2DArray data) (chars, 0) = (chars, 0)
    \<and> snd (populateTable selection data chars) = chars
    \<and> (if selection = [] then fst (populateTable selection data chars) = SelectCells
        else if getAllCells selection = [] then fst (populateTable selection data chars) = NoCellsFound
        else fst (populateTable selection data chars) = Updated 0)"
proof -
  have conv: "convertObjectsTo2DArray data = []"
    using assms by (rule convert_not_nonempty)
  have loops: "populate_rows rows [] (chars, 0) = (chars, 0)" for rows
    by (cases rows) simp_all
  show ?thesis
    by (simp add: conv loops populateTable_def)
qed

theorem malformed_dataset_zero_updates_witness:
  "\<not> nonempty_array (JArray [])
   \<and> convertObjectsTo2DArray (JArray []) = []
   \<and> populateTable [ex_row] (JArray []) empty_texts = (Updated 0, empty_texts)
   \<and> \<not> nonempty_array (JPrimitive (JStr ''Name,Department''))
   \<and> populateTable [ex_row] (JPrimitive (JStr ''Name,Department'')) empty_texts = (Updated 0, empty_texts)"
proof -
  have a: "\<not> nonempty_array (JArray [])" and b: "\<not> nonempty_array (JPrimitive (JStr ''Name,Department''))"
    by simp_all
  have cells: "getAllCells [ex_row] \<noteq> []"
    by (simp add: getAllCells_ex_row)
  show ?thesis
    using malformed_dataset_zero_updates [OF a, of "[]" empty_texts "[ex_row]"]
      malformed_dataset_zero_updates [OF b, of "[]" empty_texts "[ex_row]"] cells
    by (simp add: prod_eq_iff)
qed



section \<open>Reading a populated table back\<close>







section \<open>Properties of the row organizer\<close>

lemma insert_by_insort_key:
  "\<forall>b \<in> set bs. (cmp a b \<le> 0) = (key a \<le> key b) \<Longrightarrow> insert_by cmp a bs = insort_key key a bs"
  by (induction bs) auto

lemma array_sort_sort_key:
  fixes key :: "'a \<Rightarrow> real"
  assumes "\<forall>a \<in> set xs. \<forall>b \<in> set xs. (cmp a b \<le> 0) = (key a \<le> key b)"
  shows "array_sort cmp xs = sort_key key xs"
  using assms
proof (induction xs)
  case Nil
  show ?case by (simp add: array_sort_def)
next
  case (Cons x xs)
  then have tail: "array_sort cmp xs = sort_key key xs"
    by simp
  have "insert_by cmp x (sort_key key xs) = insort_key key x (sort_key key xs)"
    by (rule insert_by_insort_key) (use Cons.prems in simp)
  then show ?case
    using tail by (simp add: array_sort_def)
qed

lemma sort_x: "array_sort compare_x rowCells = sort_key nx rowCells"
  by (rule array_sort_sort_key) (simp add: compare_x_def)

lemma sort_rows:
  "[] \<notin> set rows \<Longrightarrow> array_sort compare_rows rows = sort_key (\<lambda>row. ny (row ! 0)) rows"
  by (rule array_sort_sort_key) (auto simp: compare_rows_def)

lemma sort_key_Nil: "sort_key f xs = [] \<longleftrightarrow> xs = []"
  by (metis length_sort length_0_conv)

lemma update_entry:
  "distinct (map fst al) \<Longrightarrow> (k', v') \<in> set (AList.update k v al) \<Longrightarrow>
   (k' = k \<and> v' = v) \<or> ((k', v') \<in> set al \<and> k' \<noteq> k)"
  by (induction al) (force split: if_splits)+

lemma rowMap_add_ok:
  assumes "rowMap_ok rowMap"
  shows "rowMap_ok (rowMap_add rowMap cell)"
proof (cases "nparent cell")
  case None
  then show ?thesis
    using assms by (simp add: rowMap_add_def)
next
  case (Some parentId)
  define rowMap1 where
    "rowMap1 = (if map_of rowMap parentId = None then AList.update parentId [] rowMap else rowMap)"
  have dist: "distinct (map fst rowMap)"
    using assms by (simp add: rowMap_ok_def)
  then have dist1: "distinct (map fst rowMap1)"
    by (simp add: rowMap1_def distinct_update)
  have others: "rowCells \<noteq> []" if "(k, rowCells) \<in> set rowMap1" "k \<noteq> parentId" for k rowCells
  proof (cases "map_of rowMap parentId = None")
    case True
    with that have "(k, rowCells) \<in> set rowMap"
      using update_entry [OF dist, of k rowCells parentId "[]"] by (auto simp: rowMap1_def)
    then show ?thesis
      using assms by (auto simp: rowMap_ok_def)
  next
    case False
    with that have "(k, rowCells) \<in> set rowMap"
      by (simp add: rowMap1_def)
    then show ?thesis
      using assms by (auto simp: rowMap_ok_def)
  qed
  have add: "rowMap_add rowMap cell =
      (case map_of rowMap1 parentId of
         Some rowCells \<Rightarrow> AList.update parentId (rowCells @ [cell]) rowMap1
       | None \<Rightarrow> rowMap1)"
    unfolding rowMap_add_def rowMap1_def Let_def Some by simp
  show ?thesis
  proof (cases "map_of rowMap1 parentId")
    case None
    have "map_of rowMap parentId \<noteq> None"
    proof
      assume "map_of rowMap parentId = None"
      then have "rowMap1 = AList.update parentId [] rowMap"
        by (simp add: rowMap1_def)
      with None show False
        by (simp add: update_conv')
    qed
    then have "rowMap1 = rowMap"
      unfolding rowMap1_def by (rule if_not_P)
    then show ?thesis
      using add None assms by simp
  next
    case found: (Some rowCells)
    have eq: "rowMap_add rowMap cell = AList.update parentId (rowCells @ [cell]) rowMap1"
      using add found by simp
    have "v \<noteq> []" if "(k, v) \<in> set (AList.update parentId (rowCells @ [cell]) rowMap1)" for k v
      using update_entry [OF dist1 that] others by auto
    moreover have "distinct (map fst (AList.update parentId (rowCells @ [cell]) rowMap1))"
      using dist1 by (rule distinct_update)
    ultimately show ?thesis
      unfolding eq rowMap_ok_def by blast
  qed
qed

lemma rowMap_ok_foldl: "rowMap_ok rowMap \<Longrightarrow> rowMap_ok (foldl rowMap_add rowMap cells)"
  by (induction cells arbitrary: rowMap) (simp_all add: rowMap_add_ok)

lemma rowMap_nonempty: "\<forall>(k, rowCells) \<in> set (foldl rowMap_add [] cells). rowCells \<noteq> []"
proof -
  have "rowMap_ok (foldl rowMap_add [] cells)"
    by (rule rowMap_ok_foldl) (simp add: rowMap_ok_def)
  then show ?thesis
    by (simp add: rowMap_ok_def)
qed

lemma organize_unfold:
  "organizeCellsIntoRows cells =
     sort_key (\<lambda>row. ny (row ! 0)) (map (\<lambda>(k, rowCells). sort_key nx rowCells) (foldl rowMap_add [] cells))"
proof -
  let ?rowMap = "foldl rowMap_add [] cells"
  let ?rows = "map (\<lambda>(k, rowCells). sort_key nx rowCells) ?rowMap"
  have rows: "map snd (map (\<lambda>(parentId, rowCells). (parentId, array_sort compare_x rowCells)) ?rowMap)
      = ?rows"
    by (simp add: sort_x split_def)
  have "\<forall>(k, rowCells) \<in> set ?rowMap. rowCells \<noteq> []"
    by (rule rowMap_nonempty)
  then have "row \<noteq> []" if "row \<in> set ?rows" for row
    using that by (auto simp: sort_key_Nil)
  then have "[] \<notin> set ?rows"
    by blast
  then have "array_sort compare_rows ?rows = sort_key (\<lambda>row. ny (row ! 0)) ?rows"
    by (rule sort_rows)
  then show ?thesis
    by (simp only: organizeCellsIntoRows_def Let_def rows)
qed

text \<open>
  C4: in every row the organizer produces, the cells are in non-decreasing order of x;
  no row is empty, and the rows are in non-decreasing order of the y of their first
  cell.
\<close>

theorem organize_rows_ordered:
  "(\<forall>row \<in> set (organizeCellsIntoRows cells). sorted (map nx row) \<and> row \<noteq> [])
   \<and> sorted (map (\<lambda>row. ny (row ! 0)) (organizeCellsIntoRows cells))"
proof -
  let ?rowMap = "foldl rowMap_add [] cells"
  have nonempty: "\<forall>(k, rowCells) \<in> set ?rowMap. rowCells \<noteq> []"
    by (rule rowMap_nonempty)
  have "sorted (map nx row) \<and> row \<noteq> []" if "row \<in> set (organizeCellsIntoRows cells)" for row
  proof -
    from that obtain k rowCells where "(k, rowCells) \<in> set ?rowMap" "row = sort_key nx rowCells"
      by (auto simp: organize_unfold)
    moreover from this nonempty have "sort_key nx rowCells \<noteq> []"
      by (auto simp: sort_key_Nil)
    ultimately show ?thesis
      by simp
  qed
  moreover have "sorted (map (\<lambda>row. ny (row ! 0)) (organizeCellsIntoRows cells))"
    by (simp only: organize_unfold sorted_sort_key)
  ultimately show ?thesis
    by blast
qed

theorem organize_rows_ordered_witness:
  "organizeCellsIntoRows ex_scattered = ex_grid
   \<and> list_all (\<lambda>row. map nx row = [0, 120]) ex_grid
   \<and> map (\<lambda>row. ny (row ! 0)) ex_grid = [0, 40]"
proof -
  have run: "organizeCellsIntoRows ex_scattered = ex_grid"
    by (simp add: organizeCellsIntoRows_def rowMap_add_def array_sort_def
      compare_x_def compare_rows_def ex_cell_def ex_scattered_def ex_grid_def)
  show ?thesis
    using organize_rows_ordered [of ex_scattered]
    by (simp add: run) (simp add: ex_grid_def ex_cell_def)
qed

section \<open>A row of three cells\<close>








section \<open>Properties of the schema-inferred generator\<close>

lemma str_includes_append2: "str_includes ys sub \<Longrightarrow> str_includes (xs @ ys) sub"
  by (induction xs) simp_all

lemma email_has_at: "str_includes (fst (generateDataForType h p ''email'' rowIndex r)) ''@''"
proof -
  have "str_includes (''@company.com'') ''@''"
    by simp
  then have "str_includes (a @ ''.'' @ b @ ''@company.com'') ''@''" for a b :: string
    by (intro str_includes_append2)
  then show ?thesis
    by (simp add: generateDataForType_def Let_def)
qed

lemma lower_foo_bar: "toLowerCase ''Foo Bar'' = ''foo bar''"
  by code_simp

lemma classify_examples:
  "getDataTypeForHeader ''Email Address'' = ''email''"
  "getDataTypeForHeader ''Foo Bar'' = ''generic:Foo Bar''"
  by code_simp+

lemma generic_foo_bar: "generateDataForType h p ''generic:Foo Bar'' 0 r = (''Foo Bar 1'', r)"
  by (simp add: generateDataForType_def lower_foo_bar digits_small digit_char_def)

lemma generate_row_length: "length (fst (generate_row h p types i r)) = length types"
  by (induction types arbitrary: r) (simp_all add: split_def Let_def)

lemma generate_row_nth:
  "j < length types \<Longrightarrow>
   \<exists>r'. fst (generate_row h p types i r) ! j = fst (generateDataForType h p (types ! j) i r')"
proof (induction types arbitrary: r j)
  case Nil
  then show ?case by simp
next
  case (Cons t types)
  show ?case
  proof (cases j)
    case 0
    then show ?thesis
      by (auto simp: split_def Let_def)
  next
    case (Suc k)
    with Cons.prems have "k < length types"
      by simp
    from Cons.IH [OF this, of "snd (generateDataForType h p t i r)"] Suc show ?thesis
      by (simp add: split_def Let_def)
  qed
qed

lemma generate_rows_length: "length (fst (generate_rows h p types n start r)) = n"
  by (induction n arbitrary: start r) (simp_all add: split_def Let_def)

lemma generate_rows_nth:
  "i < n \<Longrightarrow>
   \<exists>r'. fst (generate_rows h p types n start r) ! i = fst (generate_row h p types (start + i) r')"
proof (induction n arbitrary: start r i)
  case 0
  then show ?case by simp
next
  case (Suc n)
  show ?case
  proof (cases i)
    case 0
    then show ?thesis
      by (auto simp: split_def Let_def)
  next
    case (Suc k)
    with Suc.prems have "k < n"
      by simp
    from Suc.IH [OF this, of "Suc start" "snd (generate_row h p types start r)"] Suc show ?thesis
      by (simp add: split_def Let_def)
  qed
qed

lemma generated_cell:
  assumes "i < length (fst (generateDataFromHeaders h headers rowCount r))" "j < length headers"
  shows "\<exists>p r'. fst (generateDataFromHeaders h headers rowCount r) ! i ! j
      = fst (generateDataForType h p (getDataTypeForHeader (headers ! j)) i r')"
proof -
  obtain p r0 where sh: "shuffle_pools r = (p, r0)"
    by (cases "shuffle_pools r")
  let ?types = "map getDataTypeForHeader headers"
  have gen: "generateDataFromHeaders h headers rowCount r = generate_rows h p ?types (nat rowCount) 0 r0"
    by (simp add: generateDataFromHeaders_def sh)
  with assms(1) have "i < nat rowCount"
    by (simp add: generate_rows_length)
  from generate_rows_nth [OF this, of h p ?types 0 r0]
  obtain r1 where row: "fst (generate_rows h p ?types (nat rowCount) 0 r0) ! i
      = fst (generate_row h p ?types i r1)"
    by auto
  from generate_row_nth [of j ?types h p i r1] assms(2)
  obtain r2 where "fst (generate_row h p ?types i r1) ! j
      = fst (generateDataForType h p (?types ! j) i r2)"
    by auto
  with row gen assms(2) show ?thesis
    by auto
qed

text \<open>
  C9: the header "Email Address" classifies as \<open>email\<close>, and every value generated
  for the \<open>email\<close> type, so every cell of such a column in the generated rows, for any
  random stream, host and row count, contains \<open>@\<close>. The header "Foo Bar" matches no
  rule and classifies as \<open>generic:Foo Bar\<close>, whose value for row index 0 is exactly
  \<open>Foo Bar 1\<close>.
\<close>

theorem header_classification:
  "getDataTypeForHeader ''Email Address'' = ''email''
   \<and> str_includes (fst (generateDataForType h p ''email'' rowIndex r)) ''@''
   \<and> (\<forall>i < length (fst (generateDataFromHeaders h headers rowCount r)). \<forall>j < length headers.
        headers ! j = ''Email Address'' \<longrightarrow>
        str_includes (fst (generateDataFromHeaders h headers rowCount r) ! i ! j) ''@'')
   \<and> getDataTypeForHeader ''Foo Bar'' = ''generic:Foo Bar''
   \<and> fst (generateDataForType h p ''generic:Foo Bar'' 0 r) = ''Foo Bar 1''
   \<and> fst (generateDataFromHeaders h [''Foo Bar''] 1 r) = [[''Foo Bar 1'']]"
proof -
  have cells: "str_includes (fst (generateDataFromHeaders h headers rowCount r) ! i ! j) ''@''"
    if "i < length (fst (generateDataFromHeaders h headers rowCount r))" "j < length headers"
      "headers ! j = ''Email Address''" for i j
    using generated_cell [OF that(1,2)] that(3) by (auto simp: classify_examples email_has_at)
  have foo: "fst (generateDataFromHeaders h [''Foo Bar''] 1 r) = [[''Foo Bar 1'']]"
    by (simp add: generateDataFromHeaders_def split_def Let_def classify_examples generic_foo_bar)
  show ?thesis
    using cells foo by (simp add: classify_examples email_has_at generic_foo_bar)
qed

lemma zero_rng_draws:
  "Math_random zero_rng = (0, zero_rng)" "random_floor n zero_rng = (0, zero_rng)"
  by (simp_all add: random_floor_def Math_random_def zero_rng_def)

lemma shuffle_loop_zero_rng: "snd (shuffle_loop k xs zero_rng) = zero_rng"
  by (induction k arbitrary: xs) (simp_all add: zero_rng_draws)

lemma shuffleArray_zero_rng: "snd (shuffleArray xs zero_rng) = zero_rng"
  by (simp add: shuffleArray_def shuffle_loop_zero_rng)

lemma shuffle_pools_zero_rng:
  "snd (shuffle_pools zero_rng) = zero_rng"
  "shuffledFirstNames (fst (shuffle_pools zero_rng)) = fst (shuffleArray firstNames zero_rng)"
  "shuffledLastNames (fst (shuffle_pools zero_rng)) = fst (shuffleArray lastNames zero_rng)"
  by (simp_all add: shuffle_pools_def split_def Let_def shuffleArray_zero_rng)

lemma ex_names:
  "toLowerCase (at_mod (fst (shuffleArray firstNames zero_rng)) 0) = ''sarah''"
  "toLowerCase (at_mod (fst (shuffleArray lastNames zero_rng)) 0) = ''johnson''"
  "toLowerCase (at_mod (fst (shuffleArray firstNames zero_rng)) (Suc 0)) = ''james''"
  "toLowerCase (at_mod (fst (shuffleArray lastNames zero_rng)) (Suc 0)) = ''chen''"
  by code_simp+

lemma generic_foo_bar_row:
  "generateDataForType h p ''generic:Foo Bar'' i r = (''Foo Bar '' @ digits (i + 1), r)"
  by (simp add: generateDataForType_def lower_foo_bar)

lemma email_row:
  "generateDataForType h p ''email'' i r =
     (toLowerCase (at_mod (shuffledFirstNames p) i) @ ''.''
        @ toLowerCase (at_mod (shuffledLastNames p) i) @ ''@company.com'', r)"
  by (simp add: generateDataForType_def Let_def)

lemma ex_generated:
  "fst (generateDataFromHeaders ex_host [''Email Address'', ''Foo Bar''] 2 zero_rng)
     = [[''sarah.johnson@company.com'', ''Foo Bar 1''], [''james.chen@company.com'', ''Foo Bar 2'']]"
proof -
  obtain p where p: "shuffle_pools zero_rng = (p, zero_rng)"
    "shuffledFirstNames p = fst (shuffleArray firstNames zero_rng)"
    "shuffledLastNames p = fst (shuffleArray lastNames zero_rng)"
    using shuffle_pools_zero_rng by (cases "shuffle_pools zero_rng") auto
  have two: "nat 2 = Suc (Suc 0)"
    by simp
  show ?thesis
    unfolding generateDataFromHeaders_def p(1) two
    by (simp add: Let_def classify_examples email_row generic_foo_bar_row p(2,3) ex_names
        digits_small digit_char_def)
qed

theorem header_classification_witness:
  "getDataTypeForHeader ''Email Address'' = ''email''
   \<and> getDataTypeForHeader ''Foo Bar'' = ''generic:Foo Bar''
   \<and> fst (generateDataFromHeaders ex_host [''Email Address'', ''Foo Bar''] 2 zero_rng)
     = [[''sarah.johnson@company.com'', ''Foo Bar 1''], [''james.chen@company.com'', ''Foo Bar 2'']]
   \<and> str_includes ''sarah.johnson@company.com'' ''@''
   \<and> str_includes ''james.chen@company.com'' ''@''"
proof -
  let ?headers = "[''Email Address'', ''Foo Bar'']"
  let ?rows = "fst (generateDataFromHeaders ex_host ?headers 2 zero_rng)"
  from header_classification [of ex_host _ 0 zero_rng ?headers 2]
  have cls: "getDataTypeForHeader ''Email Address'' = ''email''"
      "getDataTypeForHeader ''Foo Bar'' = ''generic:Foo Bar''"
    and cells: "\<forall>i < length ?rows. \<forall>j < length ?headers.
        ?headers ! j = ''Email Address'' \<longrightarrow> str_includes (?rows ! i ! j) ''@''"
    by blast+
  from cells have "str_includes (?rows ! 0 ! 0) ''@''" "str_includes (?rows ! 1 ! 0) ''@''"
    by (simp_all add: ex_generated)
  then show ?thesis
    using cls by (simp add: ex_generated)
qed

section \<open>Properties of the fixed-schema generator\<close>





















end
